theory Spec2Isabelle
  imports Main
begin

section \<open>Data model of \<open>src/etl/extract_transform_load.py\<close>\<close>

text \<open>
  Attribute values read out of the playback JSON by \<open>SiriusCurrentlyPlaying.get_attribute\<close>:
  Python \<open>None\<close>, a string or an integer. Python's \<open>==\<close> on these values is structural,
  so HOL equality is the comparison the code performs.
\<close>

datatype attr = ANone | AStr string | AInt int

text \<open>
  The \<open>_id\<close> of a stored document: an identifier generated by the store on insert, or the
  channel key that \<open>__load\<close> forces on the pointer document.
\<close>

datatype ident = ObjectId nat | Key attr

text \<open>The dict \<open>{'id': .., 'number': .., 'name': ..}\<close> built at lines 216-218.\<close>

record channel_data =
  chan_id :: attr
  chan_number :: attr
  chan_name :: attr

text \<open>The dict \<open>{'size': .., 'url': ..}\<close> built at lines 229-236.\<close>

record image_data =
  image_size :: attr
  image_url :: attr

text \<open>
  One entry of \<open>creativeArts\<close> in the fetched data. \<open>type\<close> and \<open>encrypted\<close> are read with
  \<open>.get(.., None)\<close>, \<open>size\<close> and \<open>url\<close> with \<open>[..]\<close>; a key may be missing, which is \<open>None\<close> here.
\<close>

record creative_art =
  art_type :: "attr option"
  art_encrypted :: "bool option"
  art_size :: "attr option"
  art_url :: "attr option"

text \<open>
  The playback snapshot held by \<open>pss_channel.currently_playing\<close> after a fetch. \<open>start\<close> is
  the song start time, which the code reads both through the property \<open>currently_playing.start\<close>
  (line 243) and through \<open>get_attribute(SONG_START_TIME, ..)\<close> (line 211).
\<close>

record snapshot =
  status :: bool
  start :: attr
  artist_name :: attr
  song_name :: attr
  album_name :: attr
  channelId :: attr
  channelNumber :: attr
  channelName :: attr
  creativeArts :: "creative_art list"

text \<open>
  A history or pointer document: a Python dict over the keys \<open>_id\<close>, \<open>album\<close>, \<open>song\<close>,
  \<open>artist\<close>, \<open>datetime\<close>, \<open>channels\<close>, \<open>play_count\<close>, \<open>artwork\<close>. A field is \<open>None\<close> when the
  key is not in the dict. \<open>album\<close>, \<open>song\<close> and \<open>artist\<close> hold the value under \<open>'name'\<close> of
  their one-key sub-dict.
\<close>

record document =
  doc_id :: "ident option"
  album :: "attr option"
  song :: "attr option"
  artist :: "attr option"
  datetime :: "attr list option"
  channels :: "channel_data list option"
  play_count :: "int option"
  artwork :: "image_data list option"

datatype store_op = FindExisting | UpdateOne | InsertOne | ReplaceOne | FindOne

datatype error = KeyError string | IndexError | StoreError store_op

definition empty_document :: document where
  "empty_document = \<lparr>doc_id = None, album = None, song = None, artist = None,
     datetime = None, channels = None, play_count = None, artwork = None\<rparr>"

text \<open>Python truth value of an optional dict: \<open>None\<close> and \<open>{}\<close> are false.\<close>

fun truthy :: "document option \<Rightarrow> bool" where
  "truthy None = False"
| "truthy (Some d) = (d \<noteq> empty_document)"

section \<open>The merger: \<open>transform_helper\<close> (lines 181-240)\<close>

text \<open>\<open>d.get('datetime', [])\<close>, \<open>d.get('channels', [])\<close> and \<open>d.get('play_count', 0)\<close>.\<close>

definition get_datetime :: "document \<Rightarrow> attr list" where
  "get_datetime d = (case datetime d of None \<Rightarrow> [] | Some ts \<Rightarrow> ts)"

definition get_channels :: "document \<Rightarrow> channel_data list" where
  "get_channels d = (case channels d of None \<Rightarrow> [] | Some cs \<Rightarrow> cs)"

definition get_play_count :: "document \<Rightarrow> int" where
  "get_play_count d = (case play_count d of None \<Rightarrow> 0 | Some n \<Rightarrow> n)"

text \<open>
  The loop of lines 226-236. \<open>artwork['size']\<close> and \<open>artwork['url']\<close> raise \<open>KeyError\<close> on a
  retained entry that lacks the key; the first such entry in list order aborts the loop.
\<close>

fun image_list :: "creative_art list \<Rightarrow> error + image_data list" where
  "image_list [] = Inr []"
| "image_list (a # arts) =
     (if art_type a = Some (AStr ''IMAGE'') \<and> art_encrypted a = Some False then
        (case art_size a of
           None \<Rightarrow> Inl (KeyError ''size'')
         | Some sz \<Rightarrow>
             (case art_url a of
                None \<Rightarrow> Inl (KeyError ''url'')
              | Some u \<Rightarrow>
                  (case image_list arts of
                     Inl e \<Rightarrow> Inl e
                   | Inr imgs \<Rightarrow> Inr (\<lparr>image_size = sz, image_url = u\<rparr> # imgs))))
      else image_list arts)"

definition channel_of :: "snapshot \<Rightarrow> channel_data" where
  "channel_of extraction_data =
     \<lparr>chan_id = channelId extraction_data,
      chan_number = channelNumber extraction_data,
      chan_name = channelName extraction_data\<rparr>"

text \<open>Lines 198-202: a copy of the existing document when it is truthy, else \<open>{}\<close>.\<close>

definition start_document :: "document option \<Rightarrow> document" where
  "start_document existing_transformed_data =
     (case existing_transformed_data of
        None \<Rightarrow> empty_document
      | Some e \<Rightarrow> if truthy (Some e) then e else empty_document)"

text \<open>Lines 210-213: the membership test runs over the whole reversed list.\<close>

definition add_datetime :: "attr \<Rightarrow> document \<Rightarrow> document" where
  "add_datetime new_datetime d =
     (if new_datetime \<notin> set (rev (get_datetime d))
      then d\<lparr>datetime := Some (get_datetime d @ [new_datetime])\<rparr>
      else d)"

text \<open>Lines 215-221.\<close>

definition add_channel :: "channel_data \<Rightarrow> document \<Rightarrow> document" where
  "add_channel channel_data d =
     (if channel_data \<notin> set (get_channels d)
      then d\<lparr>channels := Some (get_channels d @ [channel_data])\<rparr>
      else d)"

definition transform_helper :: "snapshot \<Rightarrow> document option \<Rightarrow> error + document" where
  "transform_helper extraction_data existing_transformed_data =
     (let d0 = start_document existing_transformed_data;
          d1 = d0\<lparr>album := Some (album_name extraction_data),
                  song := Some (song_name extraction_data),
                  artist := Some (artist_name extraction_data)\<rparr>;
          d2 = add_datetime (start extraction_data) d1;
          d3 = add_channel (channel_of extraction_data) d2;
          d4 = d3\<lparr>play_count := Some (get_play_count d3 + 1)\<rparr>
      in (case image_list (creativeArts extraction_data) of
            Inl e \<Rightarrow> Inl e
          | Inr imgs \<Rightarrow> Inr (d4\<lparr>artwork := Some imgs\<rparr>)))"

section \<open>The store and the per-channel state\<close>

text \<open>
  The part of the Mongo database one \<open>ETL\<close> object touches: its own history collection
  \<open>channel_<id>\<close> and the shared collection \<open>last_played\<close>, each a sequence of documents in
  natural order. \<open>next_oid\<close> is the identifier the store hands out on the next insert of a
  document without \<open>_id\<close>.
\<close>

record db =
  history :: "document list"
  pointers :: "document list"
  next_oid :: nat

text \<open>The attributes of an \<open>ETL\<close> object (lines 47-56).\<close>

record etl =
  channel :: attr
  database :: "db option"
  database_write :: bool
  last_played :: "document option"

text \<open>The property \<open>last_played_start\<close> (lines 62-69), with the raises of \<open>['datetime'][-1]\<close>.\<close>

definition last_played_start :: "etl \<Rightarrow> error + attr" where
  "last_played_start st =
     (case last_played st of
        None \<Rightarrow> Inr ANone
      | Some lp \<Rightarrow>
          if truthy (Some lp) then
            (case datetime lp of
               None \<Rightarrow> Inl (KeyError ''datetime'')
             | Some ts \<Rightarrow> if ts = [] then Inl IndexError else Inr (last ts))
          else Inr ANone)"

text \<open>
  The change detector, the test of line 243: \<open>True\<close> means the cycle goes on to the merge.
\<close>

definition should_process :: "etl \<Rightarrow> snapshot \<Rightarrow> error + bool" where
  "should_process st snap =
     (case last_played_start st of
        Inl e \<Rightarrow> Inl e
      | Inr lps \<Rightarrow> Inr (lps \<noteq> start snap))"

text \<open>
  \<open>get_existing\<close> (lines 109-143). The collated filter on \<open>artist.name\<close> and \<open>song.name\<close> is
  evaluated by the store; it is the parameter \<open>matches\<close>, applied to the snapshot's artist name
  and song name. \<open>fails\<close> tells which store operations raise in this cycle.
\<close>

definition get_existing ::
  "(attr \<Rightarrow> attr \<Rightarrow> document \<Rightarrow> bool) \<Rightarrow> (store_op \<Rightarrow> bool) \<Rightarrow> etl \<Rightarrow> snapshot
     \<Rightarrow> error + document option" where
  "get_existing matches fails st snap =
     (case database st of
        None \<Rightarrow> Inr None
      | Some dbs \<Rightarrow>
          if fails FindExisting then Inl (StoreError FindExisting)
          else Inr (find (matches (artist_name snap) (song_name snap)) (history dbs)))"

text \<open>The loop of lines 252-259 over the keys of \<open>new_doc\<close>.\<close>

definition doc_updates_of :: "document \<Rightarrow> document" where
  "doc_updates_of new_doc =
     new_doc\<lparr>doc_id := None, album := None, song := None, artist := None, artwork := None\<rparr>"

text \<open>\<open>__transform\<close> (lines 242-269): the pair \<open>(new_doc, doc_updates)\<close>.\<close>

definition transform ::
  "(attr \<Rightarrow> attr \<Rightarrow> document \<Rightarrow> bool) \<Rightarrow> (store_op \<Rightarrow> bool) \<Rightarrow> etl \<Rightarrow> snapshot
     \<Rightarrow> error + (document option \<times> document option)" where
  "transform matches fails st snap =
     (case should_process st snap of
        Inl e \<Rightarrow> Inl e
      | Inr False \<Rightarrow> Inr (None, None)
      | Inr True \<Rightarrow>
          (case get_existing matches fails st snap of
             Inl e \<Rightarrow> Inl e
           | Inr existing_doc \<Rightarrow>
               if truthy existing_doc then
                 (case transform_helper snap existing_doc of
                    Inl e \<Rightarrow> Inl e
                  | Inr new_doc \<Rightarrow> Inr (Some new_doc, Some (doc_updates_of new_doc)))
               else
                 (case transform_helper snap None of
                    Inl e \<Rightarrow> Inl e
                  | Inr new_doc \<Rightarrow> Inr (Some new_doc, None))))"

section \<open>The writer: \<open>__update_last_played\<close> and \<open>__load\<close>\<close>

definition has_id :: "attr \<Rightarrow> document \<Rightarrow> bool" where
  "has_id c d = (doc_id d = Some (Key c))"

text \<open>\<open>__update_last_played\<close> (lines 71-89).\<close>

definition update_last_played ::
  "(store_op \<Rightarrow> bool) \<Rightarrow> document option \<Rightarrow> etl \<Rightarrow> error + etl" where
  "update_last_played fails lp st =
     (if truthy lp then Inr (st\<lparr>last_played := lp\<rparr>)
      else
        (case database st of
           None \<Rightarrow> Inr st
         | Some dbs \<Rightarrow>
             if pointers dbs \<noteq> [] then
               (if fails FindOne then Inl (StoreError FindOne)
                else Inr (st\<lparr>last_played := find (has_id (channel st)) (pointers dbs)\<rparr>))
             else Inr st))"

text \<open>\<open>{'$set': doc_updates}\<close> on one document: every key of the update replaces the field.\<close>

definition apply_set :: "document \<Rightarrow> document \<Rightarrow> document" where
  "apply_set upd d =
     \<lparr>doc_id = (case doc_id upd of None \<Rightarrow> doc_id d | Some v \<Rightarrow> Some v),
      album = (case album upd of None \<Rightarrow> album d | Some v \<Rightarrow> Some v),
      song = (case song upd of None \<Rightarrow> song d | Some v \<Rightarrow> Some v),
      artist = (case artist upd of None \<Rightarrow> artist d | Some v \<Rightarrow> Some v),
      datetime = (case datetime upd of None \<Rightarrow> datetime d | Some v \<Rightarrow> Some v),
      channels = (case channels upd of None \<Rightarrow> channels d | Some v \<Rightarrow> Some v),
      play_count = (case play_count upd of None \<Rightarrow> play_count d | Some v \<Rightarrow> Some v),
      artwork = (case artwork upd of None \<Rightarrow> artwork d | Some v \<Rightarrow> Some v)\<rparr>"

text \<open>\<open>update_one\<close>: the first document the filter selects is updated, no other.\<close>

fun update_one :: "(document \<Rightarrow> bool) \<Rightarrow> document \<Rightarrow> document list \<Rightarrow> document list" where
  "update_one P upd [] = []"
| "update_one P upd (d # ds) = (if P d then apply_set upd d # ds else d # update_one P upd ds)"

text \<open>\<open>replace_one(.., upsert=True)\<close>: the first selected document is replaced, or the
  replacement is inserted when the filter selects none.\<close>

fun replace_one :: "(document \<Rightarrow> bool) \<Rightarrow> document \<Rightarrow> document list \<Rightarrow> document list" where
  "replace_one P new_doc [] = [new_doc]"
| "replace_one P new_doc (d # ds) = (if P d then new_doc # ds else d # replace_one P new_doc ds)"

text \<open>
  \<open>insert_one\<close> gives a document without \<open>_id\<close> a fresh one, in place, and refuses an \<open>_id\<close>
  that the collection already holds.
\<close>

definition with_oid :: "db \<Rightarrow> document \<Rightarrow> document" where
  "with_oid dbs new_doc =
     (case doc_id new_doc of
        None \<Rightarrow> new_doc\<lparr>doc_id := Some (ObjectId (next_oid dbs))\<rparr>
      | Some i \<Rightarrow> new_doc)"

definition duplicate_id :: "db \<Rightarrow> document \<Rightarrow> bool" where
  "duplicate_id dbs new_doc =
     (case doc_id new_doc of
        None \<Rightarrow> False
      | Some i \<Rightarrow> Some i \<in> set (map doc_id (history dbs)))"

text \<open>
  After line 285 the attribute \<open>__last_played\<close> and the local \<open>new_doc\<close> are one and the same
  dict whenever \<open>new_doc\<close> was truthy, so a later write into \<open>new_doc\<close> is a write into the
  cache as well. \<open>sync_cache aliased d st\<close> is that write seen from the cache.
\<close>

definition sync_cache :: "bool \<Rightarrow> document \<Rightarrow> etl \<Rightarrow> etl" where
  "sync_cache aliased d st = (if aliased then st\<lparr>last_played := Some d\<rparr> else st)"

text \<open>
  Lines 309-315, after the history write left the database as \<open>dbs\<close> and the document as
  \<open>new_doc\<close>: the \<open>_id\<close> is forced to the channel, then the pointer is replaced.
\<close>

definition write_pointer ::
  "(store_op \<Rightarrow> bool) \<Rightarrow> bool \<Rightarrow> db \<Rightarrow> document \<Rightarrow> etl \<Rightarrow> error option \<times> etl" where
  "write_pointer fails aliased dbs new_doc st =
     (let new_doc' = new_doc\<lparr>doc_id := Some (Key (channel st))\<rparr>;
          st' = sync_cache aliased new_doc' (st\<lparr>database := Some dbs\<rparr>)
      in if fails ReplaceOne then (Some (StoreError ReplaceOne), st')
         else (None, st'\<lparr>database :=
                 Some (dbs\<lparr>pointers := replace_one (has_id (channel st)) new_doc' (pointers dbs)\<rparr>)\<rparr>))"

text \<open>
  \<open>__load\<close> (lines 271-315). The result is the exception that escaped, if any, and the state
  left behind: what was written before a raise stays written.
\<close>

definition load ::
  "(attr \<Rightarrow> attr \<Rightarrow> document \<Rightarrow> bool) \<Rightarrow> (store_op \<Rightarrow> bool) \<Rightarrow> snapshot
     \<Rightarrow> document \<Rightarrow> document option \<Rightarrow> etl \<Rightarrow> error option \<times> etl" where
  "load matches fails snap new_doc doc_updates st =
     (case update_last_played fails (Some new_doc) st of
        Inl e \<Rightarrow> (Some e, st)
      | Inr st1 \<Rightarrow>
          (case database st1 of
             None \<Rightarrow> (None, st1)
           | Some dbs \<Rightarrow>
               if database_write st1 then
                 (let aliased = truthy (Some new_doc) in
                  case doc_updates of
                    Some upd \<Rightarrow>
                      if truthy (Some upd) then
                        (if fails UpdateOne then (Some (StoreError UpdateOne), st1)
                         else write_pointer fails aliased
                                (dbs\<lparr>history := update_one
                                        (matches (artist_name snap) (song_name snap)) upd
                                        (history dbs)\<rparr>)
                                new_doc st1)
                      else
                        (if fails InsertOne \<or> duplicate_id dbs new_doc
                         then (Some (StoreError InsertOne), st1)
                         else write_pointer fails aliased
                                (dbs\<lparr>history := history dbs @ [with_oid dbs new_doc],
                                     next_oid := Suc (next_oid dbs)\<rparr>)
                                (with_oid dbs new_doc)
                                (sync_cache aliased (with_oid dbs new_doc) st1))
                  | None \<Rightarrow>
                      (if fails InsertOne \<or> duplicate_id dbs new_doc
                       then (Some (StoreError InsertOne), st1)
                       else write_pointer fails aliased
                              (dbs\<lparr>history := history dbs @ [with_oid dbs new_doc],
                                   next_oid := Suc (next_oid dbs)\<rparr>)
                              (with_oid dbs new_doc)
                              (sync_cache aliased (with_oid dbs new_doc) st1)))
               else (None, st1)))"

section \<open>The driver: \<open>extract_transform_load\<close> (lines 145-163)\<close>

datatype outcome = ErrorLogged | Skipped | Loaded | Raised error

text \<open>
  One cycle. \<open>snap\<close> is the snapshot that \<open>__extract\<close> leaves in \<open>pss_channel\<close>; its \<open>status\<close>
  is what \<open>__extract\<close> returns.
\<close>

definition extract_transform_load ::
  "(attr \<Rightarrow> attr \<Rightarrow> document \<Rightarrow> bool) \<Rightarrow> (store_op \<Rightarrow> bool) \<Rightarrow> snapshot \<Rightarrow> etl
     \<Rightarrow> outcome \<times> etl" where
  "extract_transform_load matches fails snap st =
     (if status snap then
        (case transform matches fails st snap of
           Inl e \<Rightarrow> (Raised e, st)
         | Inr (new_doc, doc_updates) \<Rightarrow>
             (case new_doc of
                None \<Rightarrow> (Skipped, st)
              | Some nd \<Rightarrow>
                  if truthy (Some nd) then
                    (case load matches fails snap nd doc_updates st of
                       (None, st') \<Rightarrow> (Loaded, st')
                     | (Some e, st') \<Rightarrow> (Raised e, st'))
                  else (Skipped, st)))
      else (ErrorLogged, st))"

section \<open>Sample inputs\<close>

text \<open>A retained cover image, a snapshot of song X by artist A starting at a given time, and
  the history document of that song after two plays.\<close>

definition art_cover :: creative_art where
  "art_cover = \<lparr>art_type = Some (AStr ''IMAGE''), art_encrypted = Some False,
     art_size = Some (AStr ''MEDIUM''), art_url = Some (AStr ''http://img/x'')\<rparr>"

definition snap_at :: "attr \<Rightarrow> snapshot" where
  "snap_at t = \<lparr>status = True, start = t, artist_name = AStr ''A'', song_name = AStr ''X'',
     album_name = AStr ''L'', channelId = AStr ''hits1'', channelNumber = AInt 2,
     channelName = AStr ''Hits 1'', creativeArts = [art_cover]\<rparr>"

definition hits1 :: channel_data where
  "hits1 = \<lparr>chan_id = AStr ''hits1'', chan_number = AInt 2, chan_name = AStr ''Hits 1''\<rparr>"

definition cover :: image_data where
  "cover = \<lparr>image_size = AStr ''MEDIUM'', image_url = AStr ''http://img/x''\<rparr>"

definition doc_two_plays :: document where
  "doc_two_plays = \<lparr>doc_id = Some (ObjectId 7), album = Some (AStr ''L''),
     song = Some (AStr ''X''), artist = Some (AStr ''A''),
     datetime = Some [AStr ''t1'', AStr ''t2''], channels = Some [hits1],
     play_count = Some 2, artwork = Some [cover]\<rparr>"

text \<open>A store filter that compares artist and song name exactly, and a cycle without faults.\<close>

definition exact_match :: "attr \<Rightarrow> attr \<Rightarrow> document \<Rightarrow> bool" where
  "exact_match a s d = (artist d = Some a \<and> song d = Some s)"

definition no_faults :: "store_op \<Rightarrow> bool" where
  "no_faults op = False"

definition db_empty :: db where
  "db_empty = \<lparr>history = [], pointers = [], next_oid = 0\<rparr>"

definition db_two_plays :: db where
  "db_two_plays = \<lparr>history = [doc_two_plays], pointers = [], next_oid = 8\<rparr>"

text \<open>The state of a freshly built \<open>ETL\<close> object for channel \<open>hits1\<close> whose pointer
  collection has no document for it: the cache is \<open>None\<close>.\<close>

definition etl_on :: "db \<Rightarrow> bool \<Rightarrow> etl" where
  "etl_on dbs w = \<lparr>channel = AStr ''hits1'', database = Some dbs, database_write = w,
     last_played = None\<rparr>"

text \<open>The document of song X after its first play, before the store gave it an \<open>_id\<close>, and
  a snapshot of a fetch that failed.\<close>

definition doc_first_play :: document where
  "doc_first_play = \<lparr>doc_id = None, album = Some (AStr ''L''), song = Some (AStr ''X''),
     artist = Some (AStr ''A''), datetime = Some [AStr ''t1''], channels = Some [hits1],
     play_count = Some 1, artwork = Some [cover]\<rparr>"

definition fetch_failed :: snapshot where
  "fetch_failed = (snap_at ANone)\<lparr>status := False\<rparr>"

section \<open>Repeated merges\<close>

text \<open>
  Successive cycles merge their snapshots one after the other into the record of the song:
  each call of \<open>transform_helper\<close> receives the document the previous one produced.
\<close>

fun merge_many :: "document \<Rightarrow> snapshot list \<Rightarrow> error + document" where
  "merge_many d [] = Inr d"
| "merge_many d (s # ss) =
     (case transform_helper s (Some d) of Inl e \<Rightarrow> Inl e | Inr d' \<Rightarrow> merge_many d' ss)"

section \<open>Properties of \<open>transform_helper\<close>\<close>

lemmas helper_defs = transform_helper_def Let_def add_datetime_def add_channel_def
  get_datetime_def get_channels_def get_play_count_def

lemmas sample_defs = snap_at_def doc_two_plays_def art_cover_def hits1_def cover_def
  channel_of_def empty_document_def start_document_def

lemma start_document_same: "start_document (Some e) = e"
  by (simp add: start_document_def)

lemma start_document_Some: "e \<noteq> empty_document \<Longrightarrow> start_document (Some e) = e"
  by (simp add: start_document_def)

lemma start_document_falsy: "\<not> truthy e \<Longrightarrow> start_document e = empty_document"
  by (cases e) (simp_all add: start_document_def)

lemma helper_datetime:
  "transform_helper s e = Inr d \<Longrightarrow>
   datetime d = Some (if start s \<in> set (get_datetime (start_document e))
                      then get_datetime (start_document e)
                      else get_datetime (start_document e) @ [start s])"
  by (auto simp: helper_defs split: sum.splits option.splits if_splits)

lemma helper_channels:
  "transform_helper s e = Inr d \<Longrightarrow>
   channels d = Some (if channel_of s \<in> set (get_channels (start_document e))
                      then get_channels (start_document e)
                      else get_channels (start_document e) @ [channel_of s])"
  by (auto simp: helper_defs split: sum.splits option.splits if_splits)

lemma helper_play_count:
  "transform_helper s e = Inr d \<Longrightarrow>
   play_count d = Some (get_play_count (start_document e) + 1)"
  by (auto simp: helper_defs split: sum.splits option.splits if_splits)

lemma helper_identity:
  "transform_helper s e = Inr d \<Longrightarrow>
   album d = Some (album_name s) \<and> song d = Some (song_name s) \<and>
   artist d = Some (artist_name s) \<and> doc_id d = doc_id (start_document e)"
  by (auto simp: helper_defs split: sum.splits option.splits if_splits)

lemma helper_artwork:
  "transform_helper s e = Inr d \<Longrightarrow> image_list (creativeArts s) = Inr imgs \<Longrightarrow>
   artwork d = Some imgs"
  by (auto simp: helper_defs split: sum.splits option.splits if_splits)

lemma helper_returns:
  "image_list (creativeArts s) = Inr imgs \<Longrightarrow> \<exists>d. transform_helper s e = Inr d"
  by (simp add: transform_helper_def Let_def)

lemma helper_truthy: "transform_helper s e = Inr d \<Longrightarrow> d \<noteq> empty_document"
  using helper_play_count[of s e d] by (auto simp: empty_document_def)

lemma image_list_cover: "image_list [art_cover] = Inr [cover]"
  by (simp add: art_cover_def cover_def)

lemma helper_two_plays:
  "transform_helper (snap_at t) (Some doc_two_plays) =
     Inr (if t \<in> set [AStr ''t1'', AStr ''t2''] then doc_two_plays\<lparr>play_count := Some 3\<rparr>
          else doc_two_plays\<lparr>datetime := Some [AStr ''t1'', AStr ''t2'', t],
                 play_count := Some 3\<rparr>)"
  by (simp add: helper_defs sample_defs)

section \<open>C1: de-duplication of \<open>datetime\<close>\<close>

text \<open>
  C1, as the code has it. The test of line 212 looks for the new timestamp in the whole
  (reversed) list: when the artwork of the snapshot is well formed the merge returns, and a
  start timestamp equal to any element of the record's \<open>datetime\<close>, the last one or an earlier
  one, leaves \<open>datetime\<close> as it was, while a timestamp that occurs nowhere in it is appended
  at the end.
\<close>

theorem datetime_dedup_whole_list:
  assumes "image_list (creativeArts s) = Inr imgs" and "datetime e = Some ts"
  shows "\<exists>d. transform_helper s (Some e) = Inr d \<and>
             datetime d = Some (if start s \<in> set ts then ts else ts @ [start s])"
proof -
  from assms(2) have "e \<noteq> empty_document" by (auto simp: empty_document_def)
  then have sd: "start_document (Some e) = e" by (rule start_document_Some)
  from helper_returns[OF assms(1)] obtain d where d: "transform_helper s (Some e) = Inr d"
    by blast
  from helper_datetime[OF d] sd assms(2)
  have "datetime d = Some (if start s \<in> set ts then ts else ts @ [start s])"
    by (simp add: get_datetime_def)
  with d show ?thesis by blast
qed

theorem datetime_dedup_whole_list_witness:
  "image_list (creativeArts (snap_at (AStr ''t3''))) = Inr [cover]
   \<and> datetime doc_two_plays = Some [AStr ''t1'', AStr ''t2'']
   \<and> (\<exists>d. transform_helper (snap_at (AStr ''t3'')) (Some doc_two_plays) = Inr d
          \<and> datetime d = Some [AStr ''t1'', AStr ''t2'', AStr ''t3''])"
proof -
  have a: "image_list (creativeArts (snap_at (AStr ''t3''))) = Inr [cover]"
    by (simp add: snap_at_def art_cover_def cover_def)
  have b: "datetime doc_two_plays = Some [AStr ''t1'', AStr ''t2'']"
    by (simp add: doc_two_plays_def)
  from datetime_dedup_whole_list[OF a b] a b show ?thesis by (simp add: snap_at_def)
qed

text \<open>
  The second half of C1 as it is written fails: \<open>t1\<close> is an earlier, non-adjacent entry of
  \<open>[t1, t2]\<close>, it differs from the tail \<open>t2\<close>, and merging it leaves \<open>datetime\<close> at two entries.
\<close>

theorem tail_only_dedup_counterexample:
  "datetime doc_two_plays = Some [AStr ''t1'', AStr ''t2'']
   \<and> start (snap_at (AStr ''t1'')) = AStr ''t1''
   \<and> transform_helper (snap_at (AStr ''t1'')) (Some doc_two_plays)
       = Inr (doc_two_plays\<lparr>play_count := Some 3\<rparr>)
   \<and> datetime (doc_two_plays\<lparr>play_count := Some 3\<rparr>) = Some [AStr ''t1'', AStr ''t2'']"
  by (simp add: helper_two_plays) (simp add: snap_at_def doc_two_plays_def)

section \<open>C2: the change detector\<close>

text \<open>
  C2, as the code has it. Line 243 compares \<open>last_played_start\<close>, which is \<open>None\<close> when
  there is no pointer (\<open>None\<close> or an empty dict), with the snapshot's start. The cycle is
  skipped exactly when a pointer exists and the last entry of its \<open>datetime\<close> equals the
  snapshot's start, or no pointer exists and the snapshot's start is itself \<open>None\<close>; with no
  pointer and a start other than \<open>None\<close> the cycle is always processed.
\<close>

theorem change_detector_decision:
  "(should_process st snap = Inr False) =
     ((\<exists>lp ts. last_played st = Some lp \<and> lp \<noteq> empty_document \<and> datetime lp = Some ts
          \<and> ts \<noteq> [] \<and> last ts = start snap)
      \<or> (\<not> truthy (last_played st) \<and> start snap = ANone))
   \<and> (\<not> truthy (last_played st) \<and> start snap \<noteq> ANone \<longrightarrow> should_process st snap = Inr True)"
  by (cases "last_played st")
     (auto simp: should_process_def last_played_start_def split: option.splits)

theorem change_detector_decision_witness:
  "\<not> truthy (last_played (etl_on db_empty True)) \<and> start (snap_at (AStr ''t1'')) \<noteq> ANone
   \<and> should_process (etl_on db_empty True) (snap_at (AStr ''t1'')) = Inr True"
  using change_detector_decision[of "etl_on db_empty True" "snap_at (AStr ''t1'')"]
  by (simp add: etl_on_def snap_at_def)

text \<open>
  The "in particular" of C2 fails for a snapshot without start time: with no pointer,
  \<open>None != None\<close> is false and the cycle is skipped.
\<close>

theorem absent_pointer_none_start_counterexample:
  "last_played (etl_on db_empty True) = None \<and> start (snap_at ANone) = ANone
   \<and> should_process (etl_on db_empty True) (snap_at ANone) = Inr False"
  by (simp add: etl_on_def snap_at_def should_process_def last_played_start_def)

section \<open>C5: a song seen for the first time\<close>

text \<open>
  C5. When the change detector lets the cycle through, \<open>get_existing\<close> finds no record and
  the artwork of the snapshot is well formed, \<open>__transform\<close> returns a new document and no
  update delta (the insert path); the document has \<open>play_count = 1\<close>, \<open>datetime\<close> equal to
  the one-element list of the snapshot's start, and \<open>channels\<close> equal to the one-element list
  of the snapshot's \<open>{id, number, name}\<close> triple.
\<close>

theorem new_song_insert:
  assumes "should_process st snap = Inr True"
    and "get_existing matches fails st snap = Inr None"
    and "image_list (creativeArts snap) = Inr imgs"
  shows "transform matches fails st snap =
     Inr (Some \<lparr>doc_id = None, album = Some (album_name snap), song = Some (song_name snap),
                artist = Some (artist_name snap), datetime = Some [start snap],
                channels = Some [\<lparr>chan_id = channelId snap, chan_number = channelNumber snap,
                                  chan_name = channelName snap\<rparr>],
                play_count = Some 1, artwork = Some imgs\<rparr>, None)"
  using assms by (simp add: transform_def helper_defs sample_defs)

theorem new_song_insert_witness:
  "should_process (etl_on db_empty True) (snap_at (AStr ''t1'')) = Inr True
   \<and> get_existing exact_match no_faults (etl_on db_empty True) (snap_at (AStr ''t1'')) = Inr None
   \<and> image_list (creativeArts (snap_at (AStr ''t1''))) = Inr [cover]
   \<and> transform exact_match no_faults (etl_on db_empty True) (snap_at (AStr ''t1'')) =
       Inr (Some \<lparr>doc_id = None, album = Some (AStr ''L''), song = Some (AStr ''X''),
                artist = Some (AStr ''A''), datetime = Some [AStr ''t1''],
                channels = Some [hits1], play_count = Some 1, artwork = Some [cover]\<rparr>, None)"
proof -
  have a: "should_process (etl_on db_empty True) (snap_at (AStr ''t1'')) = Inr True"
    by (simp add: etl_on_def snap_at_def should_process_def last_played_start_def)
  have b: "get_existing exact_match no_faults (etl_on db_empty True) (snap_at (AStr ''t1'')) = Inr None"
    by (simp add: get_existing_def etl_on_def db_empty_def no_faults_def)
  have c: "image_list (creativeArts (snap_at (AStr ''t1''))) = Inr [cover]"
    by (simp add: snap_at_def art_cover_def cover_def)
  from new_song_insert[OF a b c] a b c show ?thesis by (simp add: snap_at_def hits1_def)
qed

section \<open>C10: \<open>datetime\<close> of a merged record is never empty\<close>

text \<open>
  C10. Every document \<open>transform_helper\<close> returns has a \<open>datetime\<close> key holding a non-empty
  list, which is \<open>[start]\<close> when the list was empty or missing before; so with such a
  document in the pointer cache, \<open>last_played_start\<close> raises neither \<open>KeyError\<close> nor
  \<open>IndexError\<close> and returns the last element.
\<close>

theorem merged_datetime_nonempty:
  assumes "transform_helper s existing = Inr d"
  shows "\<exists>ts. datetime d = Some ts \<and> ts \<noteq> []
           \<and> (get_datetime (start_document existing) = [] \<longrightarrow> ts = [start s])
           \<and> last_played_start (st\<lparr>last_played := Some d\<rparr>) = Inr (last ts)"
  using helper_datetime[OF assms] helper_truthy[OF assms]
  by (auto simp: last_played_start_def)

theorem merged_datetime_nonempty_witness:
  "transform_helper (snap_at (AStr ''t3'')) (Some doc_two_plays)
     = Inr (doc_two_plays\<lparr>datetime := Some [AStr ''t1'', AStr ''t2'', AStr ''t3''],
              play_count := Some 3\<rparr>)
   \<and> last_played_start ((etl_on db_empty False)\<lparr>last_played :=
        Some (doc_two_plays\<lparr>datetime := Some [AStr ''t1'', AStr ''t2'', AStr ''t3''],
              play_count := Some 3\<rparr>)\<rparr>) = Inr (AStr ''t3'')"
proof -
  have a: "transform_helper (snap_at (AStr ''t3'')) (Some doc_two_plays)
     = Inr (doc_two_plays\<lparr>datetime := Some [AStr ''t1'', AStr ''t2'', AStr ''t3''],
              play_count := Some 3\<rparr>)"
    by (simp add: helper_two_plays)
  from merged_datetime_nonempty[OF a, of "etl_on db_empty False"] a show ?thesis
    by auto
qed

section \<open>C8: de-duplication of \<open>channels\<close>\<close>

lemma merge_many_channels:
  "merge_many d ss = Inr dn \<Longrightarrow> \<forall>s' \<in> set ss. channel_of s' = c \<Longrightarrow>
   c \<in> set (get_channels d) \<Longrightarrow> channels d \<noteq> None \<Longrightarrow> channels dn = channels d"
proof (induction ss arbitrary: d)
  case Nil
  then show ?case by simp
next
  case (Cons s ss)
  from Cons.prems(1) obtain d' where d': "transform_helper s (Some d) = Inr d'"
    and rest: "merge_many d' ss = Inr dn"
    by (auto split: sum.splits)
  from Cons.prems(2) have cs: "channel_of s = c" by simp
  from helper_channels[OF d'] cs Cons.prems(3,4)
  have eq: "channels d' = channels d"
    by (auto simp: start_document_same get_channels_def split: option.splits)
  with Cons.prems(3,4) have "c \<in> set (get_channels d')" "channels d' \<noteq> None"
    by (simp_all add: get_channels_def)
  with Cons.IH[OF rest] Cons.prems(2) eq show ?case by simp
qed

lemma merge_many_returns:
  "\<forall>s' \<in> set ss. \<exists>imgs. image_list (creativeArts s') = Inr imgs \<Longrightarrow>
   \<exists>dn. merge_many d ss = Inr dn"
proof (induction ss arbitrary: d)
  case Nil
  then show ?case by simp
next
  case (Cons s ss)
  then obtain imgs where "image_list (creativeArts s) = Inr imgs" by auto
  from helper_returns[OF this] obtain d' where "transform_helper s (Some d) = Inr d'" by blast
  with Cons show ?case by simp
qed

text \<open>
  C8. Merging a snapshot whose channel triple is already anywhere in \<open>channels\<close> leaves
  \<open>channels\<close> as it was. After one merge of a triple, any number of further merges of the
  same triple leave \<open>channels\<close> unchanged; the list then holds the old triples and this one,
  is at most one longer than before, and has no duplicates if it had none before.
\<close>

theorem channels_dedup:
  assumes "transform_helper s (Some e) = Inr d1"
    and "merge_many d1 ss = Inr dn"
    and "\<forall>s' \<in> set ss. channel_of s' = channel_of s"
  shows "(channel_of s \<in> set (get_channels e) \<longrightarrow> channels d1 = channels e)
       \<and> channels dn = channels d1
       \<and> set (get_channels dn) = insert (channel_of s) (set (get_channels e))
       \<and> length (get_channels dn) \<le> Suc (length (get_channels e))
       \<and> (distinct (get_channels e) \<longrightarrow> distinct (get_channels dn))"
proof -
  from helper_channels[OF assms(1)]
  have c1: "channels d1 = Some (if channel_of s \<in> set (get_channels e) then get_channels e
                                else get_channels e @ [channel_of s])"
    by (simp add: start_document_same)
  then have mem: "channel_of s \<in> set (get_channels d1)" and ne: "channels d1 \<noteq> None"
    by (auto simp: get_channels_def)
  from merge_many_channels[OF assms(2,3) mem ne] have eq: "channels dn = channels d1" .
  then have g: "get_channels dn = get_channels d1" by (simp add: get_channels_def)
  from c1 have g1: "get_channels d1 = (if channel_of s \<in> set (get_channels e) then get_channels e
                                else get_channels e @ [channel_of s])"
    by (simp add: get_channels_def)
  from c1 have "channel_of s \<in> set (get_channels e) \<longrightarrow> channels d1 = channels e"
    by (auto simp: get_channels_def split: option.splits)
  with eq g g1 show ?thesis by auto
qed

theorem channels_dedup_witness:
  "transform_helper (snap_at (AStr ''t3'')) (Some doc_two_plays)
     = Inr (doc_two_plays\<lparr>datetime := Some [AStr ''t1'', AStr ''t2'', AStr ''t3''],
              play_count := Some 3\<rparr>)
   \<and> merge_many (doc_two_plays\<lparr>datetime := Some [AStr ''t1'', AStr ''t2'', AStr ''t3''],
              play_count := Some 3\<rparr>) [snap_at (AStr ''t4''), snap_at (AStr ''t5'')]
     = Inr (doc_two_plays\<lparr>datetime :=
                Some [AStr ''t1'', AStr ''t2'', AStr ''t3'', AStr ''t4'', AStr ''t5''],
              play_count := Some 5\<rparr>)
   \<and> channels (doc_two_plays\<lparr>datetime :=
                Some [AStr ''t1'', AStr ''t2'', AStr ''t3'', AStr ''t4'', AStr ''t5''],
              play_count := Some 5\<rparr>) = Some [hits1]"
proof -
  let ?d1 = "doc_two_plays\<lparr>datetime := Some [AStr ''t1'', AStr ''t2'', AStr ''t3''],
              play_count := Some 3\<rparr>"
  let ?dn = "doc_two_plays\<lparr>datetime :=
                Some [AStr ''t1'', AStr ''t2'', AStr ''t3'', AStr ''t4'', AStr ''t5''],
              play_count := Some 5\<rparr>"
  have a: "transform_helper (snap_at (AStr ''t3'')) (Some doc_two_plays) = Inr ?d1"
    by (simp add: helper_two_plays)
  have b: "merge_many ?d1 [snap_at (AStr ''t4''), snap_at (AStr ''t5'')] = Inr ?dn"
    by (simp add: helper_defs sample_defs)
  have c: "\<forall>s' \<in> set [snap_at (AStr ''t4''), snap_at (AStr ''t5'')].
             channel_of s' = channel_of (snap_at (AStr ''t3''))"
    by (simp add: snap_at_def channel_of_def)
  from channels_dedup[OF a b c] a b show ?thesis
    by (simp add: doc_two_plays_def)
qed

section \<open>Properties of the store operations and of \<open>__load\<close>\<close>

lemma find_replace_one: "P new_doc \<Longrightarrow> find P (replace_one P new_doc ds) = Some new_doc"
  by (induction ds) simp_all

lemma filter_others_replace_one:
  "P new_doc \<Longrightarrow> filter (\<lambda>d. \<not> P d) (replace_one P new_doc ds) = filter (\<lambda>d. \<not> P d) ds"
  by (induction ds) simp_all

lemma length_replace_one:
  "length (replace_one P new_doc ds) = (if find P ds = None then Suc (length ds) else length ds)"
  by (induction ds) simp_all

lemma update_one_first:
  "find P ds = Some e \<Longrightarrow>
   \<exists>i < length ds. ds ! i = e \<and> (\<forall>j < i. \<not> P (ds ! j)) \<and>
       update_one P upd ds = ds[i := apply_set upd e]"
proof (induction ds)
  case Nil
  then show ?case by simp
next
  case (Cons d ds)
  show ?case
  proof (cases "P d")
    case True
    with Cons.prems have "d = e" by simp
    with True show ?thesis by (intro exI[of _ 0]) simp
  next
    case False
    with Cons.prems have "find P ds = Some e" by simp
    from Cons.IH[OF this] obtain i where i: "i < length ds" "ds ! i = e"
      "\<forall>j < i. \<not> P (ds ! j)" "update_one P upd ds = ds[i := apply_set upd e]" by blast
    have "\<forall>j < Suc i. \<not> P ((d # ds) ! j)"
      using False i(3) by (auto simp: less_Suc_eq_0_disj)
    with i False show ?thesis by (intro exI[of _ "Suc i"]) simp
  qed
qed

lemma with_oid_forced: "(with_oid dbs d)\<lparr>doc_id := i\<rparr> = d\<lparr>doc_id := i\<rparr>"
  by (simp add: with_oid_def split: option.splits)

lemma update_last_played_truthy:
  "d \<noteq> empty_document \<Longrightarrow> update_last_played fails (Some d) st = Inr (st\<lparr>last_played := Some d\<rparr>)"
  by (simp add: update_last_played_def)

lemma update_last_played_database:
  "update_last_played fails lp st = Inr st1 \<Longrightarrow>
   database st1 = database st \<and> database_write st1 = database_write st \<and> channel st1 = channel st"
  by (auto simp: update_last_played_def split: if_splits option.splits)

lemma write_pointer_ok:
  "write_pointer fails aliased dbs d st = (None, st') \<Longrightarrow>
   \<exists>dbs'. database st' = Some dbs' \<and> history dbs' = history dbs \<and>
     pointers dbs' = replace_one (has_id (channel st)) (d\<lparr>doc_id := Some (Key (channel st))\<rparr>) (pointers dbs)"
  by (auto simp: write_pointer_def Let_def sync_cache_def split: if_splits)

lemma sync_cache_fields:
  "channel (sync_cache a d st) = channel st \<and> database (sync_cache a d st) = database st"
  by (simp add: sync_cache_def)

lemma load_ok_pointers:
  assumes "load matches fails snap new_doc doc_updates st = (None, st')"
    and "database st = Some dbs" and "database_write st"
  shows "\<exists>dbs'. database st' = Some dbs' \<and>
     pointers dbs' = replace_one (has_id (channel st))
        (new_doc\<lparr>doc_id := Some (Key (channel st))\<rparr>) (pointers dbs)"
proof -
  from assms(1) obtain st1 where st1: "update_last_played fails (Some new_doc) st = Inr st1"
    by (auto simp: load_def split: sum.splits)
  note same = update_last_played_database[OF st1]
  from assms st1 same show ?thesis
    by (auto simp: load_def Let_def with_oid_forced sync_cache_fields
        split: option.splits if_splits dest!: write_pointer_ok)
qed

section \<open>C6: the pointer document after a load\<close>

text \<open>
  C6, as the code has it. The store writes of \<open>__load\<close> sit behind the guard of line 287.
  After every load that returns normally with persistence enabled (a database is configured
  and \<open>database_write\<close> is true), on the insert path and the update path alike, the pointer
  collection's document for channel id C is the merged record with its \<open>_id\<close> replaced by C;
  it takes the place of the previous pointer of the channel, if there was one, and the
  pointers of other channels are untouched.
\<close>

theorem pointer_replaced_when_persisting:
  assumes "load matches fails snap new_doc doc_updates st = (None, st')"
    and "database st = Some dbs" and "database_write st"
  shows "\<exists>dbs'. database st' = Some dbs'
     \<and> find (has_id (channel st)) (pointers dbs')
         = Some (new_doc\<lparr>doc_id := Some (Key (channel st))\<rparr>)
     \<and> filter (\<lambda>d. \<not> has_id (channel st) d) (pointers dbs')
         = filter (\<lambda>d. \<not> has_id (channel st) d) (pointers dbs)
     \<and> length (pointers dbs')
         = (if find (has_id (channel st)) (pointers dbs) = None
            then Suc (length (pointers dbs)) else length (pointers dbs))"
proof -
  from load_ok_pointers[OF assms] obtain dbs' where d: "database st' = Some dbs'"
    "pointers dbs' = replace_one (has_id (channel st))
        (new_doc\<lparr>doc_id := Some (Key (channel st))\<rparr>) (pointers dbs)" by blast
  have P: "has_id (channel st) (new_doc\<lparr>doc_id := Some (Key (channel st))\<rparr>)"
    by (simp add: has_id_def)
  let ?P = "has_id (channel st)" and ?n = "new_doc\<lparr>doc_id := Some (Key (channel st))\<rparr>"
  from d find_replace_one[of ?P ?n, OF P] filter_others_replace_one[of ?P ?n, OF P]
    length_replace_one[of ?P ?n "pointers dbs"]
  show ?thesis by simp
qed

section \<open>C7: the pointer cache is set first\<close>

text \<open>
  C7. For a merged record (a non-empty dict), \<open>__update_last_played\<close>, the first statement
  of \<open>__load\<close>, sets the cache to it and cannot raise. Whatever the outcome of \<open>__load\<close>,
  persistence disabled, any store write failing, or all succeeding, the cache afterwards
  holds the merged record; it is the very dict \<open>new_doc\<close>, so it agrees with the merged
  record on every field, \<open>_id\<close> alone showing what lines 307 and 310 wrote into that dict.
  With persistence disabled, or when the history write fails, it is the merged record
  unchanged.
\<close>

theorem cache_set_regardless:
  assumes "new_doc \<noteq> empty_document"
  shows "update_last_played fails (Some new_doc) st = Inr (st\<lparr>last_played := Some new_doc\<rparr>)
     \<and> (\<exists>d'. last_played (snd (load matches fails snap new_doc doc_updates st)) = Some d'
             \<and> d'\<lparr>doc_id := doc_id new_doc\<rparr> = new_doc)
     \<and> (database st = None \<or> \<not> database_write st \<longrightarrow>
          load matches fails snap new_doc doc_updates st = (None, st\<lparr>last_played := Some new_doc\<rparr>))
     \<and> ((fails UpdateOne \<and> fails InsertOne) \<longrightarrow>
          last_played (snd (load matches fails snap new_doc doc_updates st)) = Some new_doc)"
  using assms
  by (auto simp: load_def Let_def update_last_played_truthy write_pointer_def sync_cache_def
      with_oid_def split: option.splits if_splits)

section \<open>C9: a failed fetch\<close>

text \<open>
  C9. When the status of the fetched snapshot is false, the cycle ends having only reported
  the error: the whole state, the history collection, the pointer collection and the pointer
  cache, is what it was, whatever the store would have answered.
\<close>

theorem fetch_failure_no_writes:
  "\<not> status snap \<Longrightarrow> extract_transform_load matches fails snap st = (ErrorLogged, st)"
  by (simp add: extract_transform_load_def)


section \<open>The claims on sample data\<close>

lemmas writer_defs = load_def Let_def update_last_played_def write_pointer_def sync_cache_def
  with_oid_def duplicate_id_def has_id_def

theorem pointer_replaced_when_persisting_witness:
  "load exact_match no_faults (snap_at (AStr ''t1'')) doc_first_play None (etl_on db_empty True)
     = (None, \<lparr>channel = AStr ''hits1'',
          database = Some \<lparr>history = [doc_first_play\<lparr>doc_id := Some (ObjectId 0)\<rparr>],
                            pointers = [doc_first_play\<lparr>doc_id := Some (Key (AStr ''hits1''))\<rparr>],
                            next_oid = 1\<rparr>,
          database_write = True,
          last_played = Some (doc_first_play\<lparr>doc_id := Some (Key (AStr ''hits1''))\<rparr>)\<rparr>)
   \<and> find (has_id (AStr ''hits1''))
        [doc_first_play\<lparr>doc_id := Some (Key (AStr ''hits1''))\<rparr>]
       = Some (doc_first_play\<lparr>doc_id := Some (Key (AStr ''hits1''))\<rparr>)"
proof -
  let ?st' = "\<lparr>channel = AStr ''hits1'',
          database = Some \<lparr>history = [doc_first_play\<lparr>doc_id := Some (ObjectId 0)\<rparr>],
                            pointers = [doc_first_play\<lparr>doc_id := Some (Key (AStr ''hits1''))\<rparr>],
                            next_oid = 1\<rparr>,
          database_write = True,
          last_played = Some (doc_first_play\<lparr>doc_id := Some (Key (AStr ''hits1''))\<rparr>)\<rparr>"
  have a: "load exact_match no_faults (snap_at (AStr ''t1'')) doc_first_play None
             (etl_on db_empty True) = (None, ?st')"
    by (simp add: writer_defs etl_on_def db_empty_def no_faults_def doc_first_play_def
        empty_document_def)
  have b: "database (etl_on db_empty True) = Some db_empty" by (simp add: etl_on_def)
  have c: "database_write (etl_on db_empty True)" by (simp add: etl_on_def)
  from pointer_replaced_when_persisting[OF a b c] a show ?thesis
    by (simp add: etl_on_def)
qed

text \<open>
  C6 as written fails when persistence is switched off: the load returns normally and the
  pointer collection still has no document for the channel.
\<close>

theorem pointer_not_written_counterexample:
  "load exact_match no_faults (snap_at (AStr ''t1'')) doc_first_play None (etl_on db_empty False)
     = (None, (etl_on db_empty False)\<lparr>last_played := Some doc_first_play\<rparr>)
   \<and> database ((etl_on db_empty False)\<lparr>last_played := Some doc_first_play\<rparr>) = Some db_empty
   \<and> find (has_id (AStr ''hits1'')) (pointers db_empty) = None"
  by (simp add: writer_defs etl_on_def db_empty_def no_faults_def doc_first_play_def
      empty_document_def)

theorem cache_set_regardless_witness:
  "doc_first_play \<noteq> empty_document
   \<and> load exact_match no_faults (snap_at (AStr ''t1'')) doc_first_play None (etl_on db_empty False)
       = (None, (etl_on db_empty False)\<lparr>last_played := Some doc_first_play\<rparr>)
   \<and> last_played (snd (load exact_match (\<lambda>op. True) (snap_at (AStr ''t1'')) doc_first_play None
        (etl_on db_empty True))) = Some doc_first_play"
proof -
  have a: "doc_first_play \<noteq> empty_document"
    by (simp add: doc_first_play_def empty_document_def)
  from cache_set_regardless[OF a, of no_faults "etl_on db_empty False" exact_match
      "snap_at (AStr ''t1'')" None]
    cache_set_regardless[OF a, of "\<lambda>op. True" "etl_on db_empty True" exact_match
      "snap_at (AStr ''t1'')" None] a
  show ?thesis by (simp add: etl_on_def)
qed

theorem fetch_failure_no_writes_witness:
  "\<not> status fetch_failed
   \<and> extract_transform_load exact_match no_faults fetch_failed (etl_on db_two_plays True)
       = (ErrorLogged, etl_on db_two_plays True)"
proof -
  have a: "\<not> status fetch_failed" by (simp add: fetch_failed_def snap_at_def)
  from fetch_failure_no_writes[OF a] a show ?thesis by simp
qed

section \<open>C4: a repeat of a known song\<close>

lemma doc_updates_fields:
  "doc_id (doc_updates_of d) = None \<and> album (doc_updates_of d) = None
   \<and> song (doc_updates_of d) = None \<and> artist (doc_updates_of d) = None
   \<and> artwork (doc_updates_of d) = None \<and> datetime (doc_updates_of d) = datetime d
   \<and> channels (doc_updates_of d) = channels d \<and> play_count (doc_updates_of d) = play_count d"
  by (simp add: doc_updates_of_def)

text \<open>
  C4, as the code has it. When the change detector lets the cycle through, \<open>get_existing\<close>
  finds a record with \<open>play_count = k\<close> and the artwork is well formed, \<open>__transform\<close>
  returns a merged record and an update delta: \<open>play_count\<close> is \<open>k + 1\<close>; \<open>datetime\<close> is
  extended by the snapshot's start unless that timestamp already occurs anywhere in the list,
  in which case it is unchanged; and the delta holds \<open>datetime\<close>, \<open>channels\<close> and
  \<open>play_count\<close> of the merged record and none of \<open>_id\<close>, \<open>album\<close>, \<open>song\<close>, \<open>artist\<close>,
  \<open>artwork\<close>.
\<close>

theorem repeat_song_update:
  assumes "should_process st snap = Inr True"
    and "get_existing matches fails st snap = Inr (Some e)"
    and "play_count e = Some k" and "datetime e = Some ts"
    and "image_list (creativeArts snap) = Inr imgs"
  shows "\<exists>d u. transform matches fails st snap = Inr (Some d, Some u)
     \<and> play_count d = Some (k + 1)
     \<and> datetime d = Some (if start snap \<in> set ts then ts else ts @ [start snap])
     \<and> datetime u = datetime d \<and> channels u = channels d \<and> play_count u = play_count d
     \<and> doc_id u = None \<and> album u = None \<and> song u = None \<and> artist u = None \<and> artwork u = None"
proof -
  from assms(3) have ne: "e \<noteq> empty_document" by (auto simp: empty_document_def)
  from helper_returns[OF assms(5)] obtain d where d: "transform_helper snap (Some e) = Inr d"
    by blast
  from assms(1,2) ne d
  have t: "transform matches fails st snap = Inr (Some d, Some (doc_updates_of d))"
    by (simp add: transform_def)
  from helper_play_count[OF d] assms(3)
  have pc: "play_count d = Some (k + 1)"
    by (simp add: start_document_same get_play_count_def)
  from helper_datetime[OF d] assms(4)
  have dt: "datetime d = Some (if start snap \<in> set ts then ts else ts @ [start snap])"
    by (simp add: start_document_same get_datetime_def)
  from t pc dt doc_updates_fields[of d] show ?thesis by simp
qed

lemma sample_existing:
  "get_existing exact_match no_faults (etl_on db_two_plays True) (snap_at t) = Inr (Some doc_two_plays)"
  by (simp add: get_existing_def etl_on_def db_two_plays_def no_faults_def exact_match_def
      snap_at_def doc_two_plays_def)

lemma sample_should_process:
  "should_process (etl_on dbs w) (snap_at (AStr t)) = Inr True"
  by (simp add: should_process_def last_played_start_def etl_on_def snap_at_def)

theorem repeat_song_update_witness:
  "should_process (etl_on db_two_plays True) (snap_at (AStr ''t3'')) = Inr True
   \<and> get_existing exact_match no_faults (etl_on db_two_plays True) (snap_at (AStr ''t3''))
       = Inr (Some doc_two_plays)
   \<and> play_count doc_two_plays = Some 2
   \<and> (\<exists>d u. transform exact_match no_faults (etl_on db_two_plays True) (snap_at (AStr ''t3''))
               = Inr (Some d, Some u)
         \<and> play_count d = Some 3
         \<and> datetime d = Some [AStr ''t1'', AStr ''t2'', AStr ''t3'']
         \<and> datetime u = datetime d \<and> play_count u = play_count d \<and> artwork u = None)"
proof -
  have c: "play_count doc_two_plays = Some 2" by (simp add: doc_two_plays_def)
  have d: "datetime doc_two_plays = Some [AStr ''t1'', AStr ''t2'']"
    by (simp add: doc_two_plays_def)
  have i: "image_list (creativeArts (snap_at (AStr ''t3''))) = Inr [cover]"
    by (simp add: snap_at_def art_cover_def cover_def)
  from repeat_song_update[OF sample_should_process sample_existing c d i]
  obtain dd u where "transform exact_match no_faults (etl_on db_two_plays True)
       (snap_at (AStr ''t3'')) = Inr (Some dd, Some u)
     \<and> play_count dd = Some 3
     \<and> datetime dd = Some [AStr ''t1'', AStr ''t2'', AStr ''t3'']
     \<and> datetime u = datetime dd \<and> play_count u = play_count dd \<and> artwork u = None"
    by (auto simp: snap_at_def)
  then show ?thesis using sample_should_process sample_existing c by blast
qed

text \<open>
  C4 as written fails for a start that differs from the last entry of \<open>datetime\<close> but
  equals an earlier one: \<open>play_count\<close> goes from 2 to 3 and \<open>datetime\<close> stays \<open>[t1, t2]\<close>.
\<close>

theorem repeat_not_extended_counterexample:
  "datetime doc_two_plays = Some [AStr ''t1'', AStr ''t2'']
   \<and> start (snap_at (AStr ''t1'')) \<noteq> last [AStr ''t1'', AStr ''t2'']
   \<and> get_existing exact_match no_faults (etl_on db_two_plays True) (snap_at (AStr ''t1''))
       = Inr (Some doc_two_plays)
   \<and> transform exact_match no_faults (etl_on db_two_plays True) (snap_at (AStr ''t1''))
       = Inr (Some (doc_two_plays\<lparr>play_count := Some 3\<rparr>),
              Some \<lparr>doc_id = None, album = None, song = None, artist = None,
                    datetime = Some [AStr ''t1'', AStr ''t2''], channels = Some [hits1],
                    play_count = Some 3, artwork = None\<rparr>)"
  by (simp add: transform_def sample_should_process sample_existing helper_two_plays
      doc_updates_of_def)
     (simp add: doc_two_plays_def empty_document_def snap_at_def)

section \<open>C3: identity fields of the stored record\<close>

lemma apply_set_delta:
  assumes "transform_helper snap ex = Inr d"
  shows "apply_set (doc_updates_of d) e
     = e\<lparr>datetime := datetime d, channels := channels d, play_count := play_count d\<rparr>"
  using helper_datetime[OF assms] helper_channels[OF assms] helper_play_count[OF assms]
  by (simp add: apply_set_def doc_updates_of_def)

lemma delta_truthy:
  assumes "transform_helper snap ex = Inr d"
  shows "doc_updates_of d \<noteq> empty_document"
proof
  assume "doc_updates_of d = empty_document"
  then have "play_count (doc_updates_of d) = play_count empty_document" by simp
  with helper_play_count[OF assms] show False
    by (simp add: doc_updates_of_def empty_document_def)
qed

lemma load_update_history:
  assumes "d \<noteq> empty_document" and "upd \<noteq> empty_document"
    and "database st = Some dbs" and "database_write st" and "\<not> fails UpdateOne"
  shows "\<exists>dbs'. database (snd (load matches fails snap d (Some upd) st)) = Some dbs'
     \<and> history dbs' = update_one (matches (artist_name snap) (song_name snap)) upd (history dbs)"
  using assms
  by (auto simp: load_def Let_def update_last_played_truthy write_pointer_def sync_cache_def
      split: option.splits if_splits)

lemma driver_state:
  "transform matches fails st snap = Inr (Some d, u) \<Longrightarrow> d \<noteq> empty_document \<Longrightarrow> status snap \<Longrightarrow>
   snd (extract_transform_load matches fails snap st) = snd (load matches fails snap d u st)"
  by (auto simp: extract_transform_load_def split: prod.splits option.splits)

text \<open>
  C3. A cycle that merges a snapshot into an existing record of the history collection, the
  first one the filter on artist and song name selects, changes that stored record in
  \<open>datetime\<close>, \<open>channels\<close> and \<open>play_count\<close> only: its \<open>_id\<close>, \<open>album\<close>, \<open>song\<close>, \<open>artist\<close>
  and \<open>artwork\<close> are what they were, and no other record of the collection changes. (The
  merged record itself, and so the pointer document, carry the identity fields of the
  snapshot.)
\<close>

theorem identity_fields_write_once:
  assumes "status snap" and "should_process st snap = Inr True"
    and "database st = Some dbs" and "database_write st"
    and "\<not> fails FindExisting" and "\<not> fails UpdateOne"
    and "find (matches (artist_name snap) (song_name snap)) (history dbs) = Some e"
    and "e \<noteq> empty_document"
    and "image_list (creativeArts snap) = Inr imgs"
  shows "\<exists>d dbs' i. transform_helper snap (Some e) = Inr d
     \<and> database (snd (extract_transform_load matches fails snap st)) = Some dbs'
     \<and> i < length (history dbs) \<and> history dbs ! i = e
     \<and> history dbs' = (history dbs)[i := e\<lparr>datetime := datetime d, channels := channels d,
                                           play_count := play_count d\<rparr>]
     \<and> doc_id (history dbs' ! i) = doc_id e \<and> album (history dbs' ! i) = album e
     \<and> song (history dbs' ! i) = song e \<and> artist (history dbs' ! i) = artist e
     \<and> artwork (history dbs' ! i) = artwork e"
proof -
  let ?P = "matches (artist_name snap) (song_name snap)"
  from helper_returns[OF assms(9)] obtain d where d: "transform_helper snap (Some e) = Inr d"
    by blast
  from assms(3,5,7) have ge: "get_existing matches fails st snap = Inr (Some e)"
    by (simp add: get_existing_def)
  from assms(2,8) ge d
  have t: "transform matches fails st snap = Inr (Some d, Some (doc_updates_of d))"
    by (simp add: transform_def)
  from driver_state[OF t helper_truthy[OF d] assms(1)]
    load_update_history[where fails = fails and matches = matches and snap = snap,
      OF helper_truthy[OF d] delta_truthy[OF d] assms(3,4,6)]
  obtain dbs' where dbs': "database (snd (extract_transform_load matches fails snap st)) = Some dbs'"
    "history dbs' = update_one ?P (doc_updates_of d) (history dbs)"
    by auto
  from update_one_first[OF assms(7)] obtain i where i: "i < length (history dbs)"
    "history dbs ! i = e"
    "update_one ?P (doc_updates_of d) (history dbs)
       = (history dbs)[i := apply_set (doc_updates_of d) e]"
    by blast
  from dbs' i apply_set_delta[OF d]
  have h: "history dbs' = (history dbs)[i := e\<lparr>datetime := datetime d, channels := channels d,
                                           play_count := play_count d\<rparr>]"
    by simp
  with i(1) have "history dbs' ! i = e\<lparr>datetime := datetime d, channels := channels d,
                                           play_count := play_count d\<rparr>"
    by simp
  with d dbs'(1) i(1,2) h show ?thesis by auto
qed


lemma sample_find:
  "find (exact_match (artist_name (snap_at t)) (song_name (snap_at t))) (history db_two_plays)
     = Some doc_two_plays"
  by (simp add: db_two_plays_def exact_match_def snap_at_def doc_two_plays_def)

theorem identity_fields_write_once_witness:
  "status (snap_at (AStr ''t3''))
   \<and> should_process (etl_on db_two_plays True) (snap_at (AStr ''t3'')) = Inr True
   \<and> find (exact_match (artist_name (snap_at (AStr ''t3''))) (song_name (snap_at (AStr ''t3''))))
        (history db_two_plays) = Some doc_two_plays
   \<and> (\<exists>d dbs'. transform_helper (snap_at (AStr ''t3'')) (Some doc_two_plays) = Inr d
        \<and> database (snd (extract_transform_load exact_match no_faults (snap_at (AStr ''t3''))
              (etl_on db_two_plays True))) = Some dbs'
        \<and> history dbs' = [doc_two_plays\<lparr>datetime := datetime d, channels := channels d,
                                           play_count := play_count d\<rparr>])"
proof -
  let ?s = "snap_at (AStr ''t3'')" and ?st = "etl_on db_two_plays True"
  have a: "status ?s" by (simp add: snap_at_def)
  have c: "database ?st = Some db_two_plays" by (simp add: etl_on_def)
  have d: "database_write ?st" by (simp add: etl_on_def)
  have e: "\<not> no_faults FindExisting" by (simp add: no_faults_def)
  have f: "\<not> no_faults UpdateOne" by (simp add: no_faults_def)
  have h: "doc_two_plays \<noteq> empty_document" by (simp add: doc_two_plays_def empty_document_def)
  have i: "image_list (creativeArts ?s) = Inr [cover]"
    by (simp add: snap_at_def art_cover_def cover_def)
  have l: "length (history db_two_plays) = 1" by (simp add: db_two_plays_def)
  from identity_fields_write_once[where matches = exact_match and fails = no_faults,
      OF a sample_should_process c d e f sample_find h i]
  obtain dd dbs' j where j: "transform_helper ?s (Some doc_two_plays) = Inr dd"
    "database (snd (extract_transform_load exact_match no_faults ?s ?st)) = Some dbs'"
    "j < length (history db_two_plays)"
    "history dbs' = (history db_two_plays)[j := doc_two_plays\<lparr>datetime := datetime dd,
        channels := channels dd, play_count := play_count dd\<rparr>]"
    by blast
  from j(3) l have "j = 0" by simp
  with j(4) have "history dbs' = [doc_two_plays\<lparr>datetime := datetime dd,
        channels := channels dd, play_count := play_count dd\<rparr>]"
    by (simp add: db_two_plays_def)
  with j(1,2) a sample_should_process[of db_two_plays True "''t3''"] sample_find[of "AStr ''t3''"]
  show ?thesis by blast
qed

section \<open>One cycle on sample data\<close>

text \<open>The third cycle of the scenario: song X, known with two plays, starts again at
  \<open>t3\<close>; the history record is updated in place and the pointer replaced.\<close>

lemma scenario_cycle3:
  "extract_transform_load exact_match no_faults (snap_at (AStr ''t3'')) (etl_on db_two_plays True)
     = (Loaded, \<lparr>channel = AStr ''hits1'',
          database = Some \<lparr>history = [doc_two_plays\<lparr>datetime :=
                                Some [AStr ''t1'', AStr ''t2'', AStr ''t3''], play_count := Some 3\<rparr>],
             pointers = [doc_two_plays\<lparr>doc_id := Some (Key (AStr ''hits1'')), datetime :=
                                Some [AStr ''t1'', AStr ''t2'', AStr ''t3''], play_count := Some 3\<rparr>],
             next_oid = 8\<rparr>,
          database_write = True,
          last_played = Some (doc_two_plays\<lparr>doc_id := Some (Key (AStr ''hits1'')), datetime :=
                                Some [AStr ''t1'', AStr ''t2'', AStr ''t3''], play_count := Some 3\<rparr>)\<rparr>)"
  by (simp add: extract_transform_load_def transform_def sample_should_process sample_existing
      helper_two_plays)
     (simp add: writer_defs doc_updates_of_def apply_set_def etl_on_def db_two_plays_def
      doc_two_plays_def empty_document_def no_faults_def exact_match_def snap_at_def)

end
